theory Spec2Isabelle
  imports Main "HOL-Library.Word"
begin

section \<open>GitFS: a read-only filesystem view of a git repository\<close>

text \<open>
  The development embeds \<^verbatim>\<open>fs/gitfs/gitfile.py\<close>, \<^verbatim>\<open>fs/gitfs/objects.py\<close> and
  \<^verbatim>\<open>fs/gitfs/gitfs.py\<close>. Python exceptions are values of the type \<open>error\<close>; a
  method that may raise returns \<open>error + 'a\<close>, with \<open>Inl\<close> for the raised exception.
  Generators are the lists of the values they yield, in the order of the yields.
\<close>

subsection \<open>Exceptions\<close>

text \<open>
  The host framework's errors [\<^verbatim>\<open>fs.errors\<close>] carry the path they were raised with
  (\<open>FileExists\<close> is the one that the documentation of \<^verbatim>\<open>openbin\<close> names for the
  exclusive mode);
  \<^verbatim>\<open>io.UnsupportedOperation\<close> carries its message. The remaining constructors are the
  Python built-in exceptions that the nodes and the object store raise, and
  \<open>InvalidPath\<close> stands for whatever the host's path validation raises.
\<close>

datatype error =
    ResourceNotFound string
  | DirectoryExpected string
  | FileExpected string
  | ResourceReadOnly string
  | FileExists string
  | UnsupportedOperation string
  | IndexError
  | KeyError
  | NotImplementedError
  | AttributeError
  | InvalidPath string

subsection \<open>Strings and paths\<close>

text \<open>Python's \<^verbatim>\<open>s.strip(c)\<close> for a one-character argument.\<close>

definition str_strip :: "char \<Rightarrow> string \<Rightarrow> string" where
  "str_strip c s = rev (dropWhile (\<lambda>x. x = c) (rev (dropWhile (\<lambda>x. x = c) s)))"

text \<open>
  Python's \<^verbatim>\<open>s.split(c)\<close> for a one-character separator: empty fields are kept, and the
  empty string splits into one empty field.
\<close>

fun str_split :: "char \<Rightarrow> string \<Rightarrow> string list" where
  "str_split c [] = [[]]"
| "str_split c (x # xs) =
     (if x = c then [] # str_split c xs
      else (case str_split c xs of
              [] \<Rightarrow> [[x]]
            | w # ws \<Rightarrow> (x # w) # ws))"

text \<open>Python's \<^verbatim>\<open>c.join(parts)\<close>.\<close>

fun str_join :: "char \<Rightarrow> string list \<Rightarrow> string" where
  "str_join c [] = []"
| "str_join c [w] = w"
| "str_join c (w # ws) = w @ c # str_join c ws"

text \<open>
  The host framework's \<^verbatim>\<open>fs.path.split\<close>, which \<^verbatim>\<open>RefsDir.scandir\<close> calls on a ref's
  name: the pair of everything before the last separator (the root when that is empty)
  and the last component; a path without separator is all tail.
\<close>

definition path_split :: "string \<Rightarrow> string \<times> string" where
  "path_split path =
     (if CHR ''/'' \<notin> set path then ([], path)
      else (let parts = str_split CHR ''/'' path;
                head = str_join CHR ''/'' (butlast parts)
            in (if head = [] then ''/'' else head, last parts)))"

subsection \<open>The object store\<close>

text \<open>
  The objects of the repository library that the nodes wrap. A blob has a native name,
  size and mode, and the bytes that the object database streams for it. A tree has a
  native name, size and mode and its entries in the store's order; every entry is a blob
  or a tree (submodule entries are outside the model).
\<close>

record git_blob =
  blob_name :: string
  blob_size :: int
  blob_mode :: int
  blob_data :: "8 word list"

datatype git_tree =
  GitTree (tree_name: string) (tree_size: int) (tree_mode: int) (tree_entries: "git_entry list")
and git_entry =
    EntryBlob git_blob
  | EntryTree git_tree

text \<open>The attributes \<^verbatim>\<open>name\<close> and \<^verbatim>\<open>type\<close> of an entry.\<close>

fun entry_name :: "git_entry \<Rightarrow> string" where
  "entry_name (EntryBlob b) = blob_name b"
| "entry_name (EntryTree t) = tree_name t"

fun entry_type :: "git_entry \<Rightarrow> string" where
  "entry_type (EntryBlob b) = ''blob''"
| "entry_type (EntryTree t) = ''tree''"

text \<open>
  The store's \<^verbatim>\<open>tree.trees\<close> and \<^verbatim>\<open>tree.blobs\<close>: the entries of type \<^verbatim>\<open>tree\<close>,
  respectively \<^verbatim>\<open>blob\<close>, in the order of the entries.
\<close>

fun entries_trees :: "git_entry list \<Rightarrow> git_tree list" where
  "entries_trees [] = []"
| "entries_trees (EntryTree t # es) = t # entries_trees es"
| "entries_trees (EntryBlob b # es) = entries_trees es"

fun entries_blobs :: "git_entry list \<Rightarrow> git_blob list" where
  "entries_blobs [] = []"
| "entries_blobs (EntryBlob b # es) = b # entries_blobs es"
| "entries_blobs (EntryTree t # es) = entries_blobs es"

definition trees :: "git_tree \<Rightarrow> git_tree list" where
  "trees t = entries_trees (tree_entries t)"

definition blobs :: "git_tree \<Rightarrow> git_blob list" where
  "blobs t = entries_blobs (tree_entries t)"

text \<open>
  The store's \<^verbatim>\<open>tree[name]\<close> for a name without separator (the facade splits the path
  at every separator before it asks): the first entry of that name, or \<^verbatim>\<open>KeyError\<close>.
\<close>

definition tree_getitem :: "git_tree \<Rightarrow> string \<Rightarrow> error + git_entry" where
  "tree_getitem t name =
     (case find (\<lambda>e. entry_name e = name) (tree_entries t) of
        None \<Rightarrow> Inl KeyError
      | Some e \<Rightarrow> Inr e)"

text \<open>A commit exposes its root tree; a ref has a name and points to a commit.\<close>

datatype commit = Commit (commit_tree: git_tree)

record git_ref =
  ref_name :: string
  ref_commit :: commit

text \<open>
  The store's collections of refs and remotes: the items in the store's iteration order,
  and a prefix that a lookup by name puts before the name (a remote's refs are named
  \<^verbatim>\<open>remote/branch\<close> and looked up by \<^verbatim>\<open>branch\<close>). A lookup returns the first item with
  that identifier, or raises \<^verbatim>\<open>IndexError\<close>.
\<close>

datatype 'a iterable_list = IterableList (il_prefix: string) (il_items: "'a list")

definition il_getitem :: "('a \<Rightarrow> string) \<Rightarrow> 'a iterable_list \<Rightarrow> string \<Rightarrow> error + 'a" where
  "il_getitem ident xs name =
     (case find (\<lambda>x. ident x = il_prefix xs @ name) (il_items xs) of
        None \<Rightarrow> Inl IndexError
      | Some x \<Rightarrow> Inr x)"

record git_remote =
  remote_name :: string
  remote_refs :: "git_ref iterable_list"

text \<open>
  The repository handle: the commit of HEAD, the tags, the branches and the remotes. The
  model covers the repositories that have a HEAD commit.
\<close>

record repo =
  head_commit :: commit
  tags :: "git_ref iterable_list"
  branches :: "git_ref iterable_list"
  remotes :: "git_remote iterable_list"

subsection \<open>Resource information [\<^verbatim>\<open>objects.py\<close>, class \<^verbatim>\<open>GitInfo\<close>]\<close>

text \<open>
  \<^verbatim>\<open>GitInfo\<close> reads the attributes \<^verbatim>\<open>name\<close>, \<^verbatim>\<open>type\<close>, \<^verbatim>\<open>size\<close> and \<^verbatim>\<open>mode\<close> of the
  object it is given, which is a node of this module or an object of the store.
\<close>

record attrs =
  a_name :: string
  a_type :: string
  a_size :: int
  a_mode :: int

definition blob_attrs :: "git_blob \<Rightarrow> attrs" where
  "blob_attrs b =
     \<lparr>a_name = blob_name b, a_type = ''blob'', a_size = blob_size b, a_mode = blob_mode b\<rparr>"

definition tree_attrs :: "git_tree \<Rightarrow> attrs" where
  "tree_attrs t =
     \<lparr>a_name = tree_name t, a_type = ''tree'', a_size = tree_size t, a_mode = tree_mode t\<rparr>"

text \<open>The host framework's enumeration of resource types, as far as \<^verbatim>\<open>GitInfo\<close> uses it.\<close>

datatype ResourceType = ResourceType_directory | ResourceType_file

text \<open>
  Python's \<^verbatim>\<open>int(...)\<close> on a member of the host framework's \<^verbatim>\<open>ResourceType\<close>, an
  integer enumeration declared in \<^verbatim>\<open>fs.enums\<close> (not among the sources): there
  \<^verbatim>\<open>directory\<close> is 1 and \<^verbatim>\<open>file\<close> is 2.
\<close>

fun ResourceType_int :: "ResourceType \<Rightarrow> int" where
  "ResourceType_int ResourceType_directory = 1"
| "ResourceType_int ResourceType_file = 2"

text \<open>
  The raw info of the three namespaces. The name is Python's
  \<^verbatim>\<open>git_obj.name or name\<close>: the object's name unless it is empty, else the optional
  override. The access namespace keeps the mode that the host's \<^verbatim>\<open>Permissions\<close> is
  built from.
\<close>

record Info =
  git_obj :: attrs
  info_name :: "string option"
  is_dir :: bool
  info_type :: int
  info_size :: int
  permissions_mode :: int

definition GitInfo :: "attrs \<Rightarrow> string option \<Rightarrow> Info" where
  "GitInfo obj name =
     \<lparr>git_obj = obj,
      info_name = (if a_name obj \<noteq> [] then Some (a_name obj) else name),
      is_dir = (a_type obj \<noteq> ''blob''),
      info_type = ResourceType_int (if a_type obj \<noteq> ''blob'' then ResourceType_directory else ResourceType_file),
      info_size = a_size obj,
      permissions_mode = a_mode obj\<rparr>"

definition is_writeable :: "Info \<Rightarrow> string \<Rightarrow> string \<Rightarrow> bool" where
  "is_writeable self namespace key = False"

subsection \<open>The content stream [\<^verbatim>\<open>gitfile.py\<close>]\<close>

text \<open>
  \<^verbatim>\<open>GitFile\<close> is an \<^verbatim>\<open>io.BytesIO\<close> over the blob's bytes: a buffer and a position.
  The methods that could change the stream take it and return it.
\<close>

record GitFile =
  buffer :: "8 word list"
  pos :: nat

definition GitFile_init :: "git_blob \<Rightarrow> GitFile" where
  "GitFile_init blob = \<lparr>buffer = blob_data blob, pos = 0\<rparr>"

definition readable :: "GitFile \<Rightarrow> bool" where
  "readable self = True"

definition writable :: "GitFile \<Rightarrow> bool" where
  "writable self = False"

definition GitFile_write :: "GitFile \<Rightarrow> 'a \<Rightarrow> (error + int) \<times> GitFile" where
  "GitFile_write self data = (Inl (UnsupportedOperation ''write''), self)"

definition GitFile_writelines :: "GitFile \<Rightarrow> 'a \<Rightarrow> (error + unit) \<times> GitFile" where
  "GitFile_writelines self lines = (Inl (UnsupportedOperation ''write''), self)"

subsection \<open>The nodes [\<^verbatim>\<open>objects.py\<close>]\<close>

text \<open>
  One constructor for each concrete class, with the fields its \<^verbatim>\<open>__init__\<close> stores.
  \<^verbatim>\<open>RootDir\<close>, \<^verbatim>\<open>RefsDir\<close>, \<^verbatim>\<open>RemotesDir\<close> and \<^verbatim>\<open>ObjectsDir\<close> derive from \<^verbatim>\<open>VDir\<close>.
\<close>

datatype GitObject =
    Blob git_blob
  | TreeDir string commit git_tree
  | RefsDir string "git_ref iterable_list"
  | RemotesDir string "git_remote iterable_list"
  | ObjectsDir string repo
  | RootDir repo

text \<open>\<^verbatim>\<open>VDir.__init__\<close>: the attributes of a virtual directory.\<close>

definition VDir_attrs :: "string \<Rightarrow> attrs" where
  "VDir_attrs name = \<lparr>a_name = name, a_type = ''dir'', a_size = 0, a_mode = 16384\<rparr>"

text \<open>\<^verbatim>\<open>TreeDir.__init__\<close>: without a tree, the tree of the commit.\<close>

definition TreeDir_init :: "string \<Rightarrow> commit \<Rightarrow> git_tree option \<Rightarrow> GitObject" where
  "TreeDir_init name c tree =
     TreeDir name c (case tree of None \<Rightarrow> commit_tree c | Some t \<Rightarrow> t)"

text \<open>
  \<^verbatim>\<open>getinfo\<close> of each class; the namespaces are not looked at. Every concrete class
  overrides the base method, which raises.
\<close>

fun obj_getinfo :: "GitObject \<Rightarrow> string list option \<Rightarrow> Info" where
  "obj_getinfo (Blob blob) namespaces = GitInfo (blob_attrs blob) None"
| "obj_getinfo (TreeDir name c tree) namespaces = GitInfo (tree_attrs tree) (Some name)"
| "obj_getinfo (RefsDir name refs) namespaces = GitInfo (VDir_attrs name) None"
| "obj_getinfo (RemotesDir name rs) namespaces = GitInfo (VDir_attrs name) None"
| "obj_getinfo (ObjectsDir name r) namespaces = GitInfo (VDir_attrs name) None"
| "obj_getinfo (RootDir r) namespaces = GitInfo (VDir_attrs ''/'') None"

text \<open>\<^verbatim>\<open>RootDir.children\<close>: the dictionary, in the order of its declaration.\<close>

definition children :: "(string \<times> (repo \<Rightarrow> GitObject)) list" where
  "children =
     [(''head'', \<lambda>repo. TreeDir_init ''head'' (head_commit repo) None),
      (''tags'', \<lambda>repo. RefsDir ''tags'' (tags repo)),
      (''branches'', \<lambda>repo. RefsDir ''branches'' (branches repo)),
      (''remotes'', \<lambda>repo. RemotesDir ''remotes'' (remotes repo)),
      (''objects'', \<lambda>repo. ObjectsDir ''objects'' repo)]"

text \<open>
  \<^verbatim>\<open>get\<close> of each class. \<^verbatim>\<open>Blob\<close> inherits the base method, which raises
  \<^verbatim>\<open>NotImplementedError\<close>. \<^verbatim>\<open>ObjectsDir.get\<close> reads \<^verbatim>\<open>self.remotes\<close>, an attribute
  that no \<^verbatim>\<open>ObjectsDir\<close> has, so it raises \<^verbatim>\<open>AttributeError\<close> for every name.
\<close>

fun obj_get :: "GitObject \<Rightarrow> string \<Rightarrow> error + GitObject" where
  "obj_get (Blob blob) name = Inl NotImplementedError"
| "obj_get (TreeDir n c tree) name =
     (case tree_getitem tree name of
        Inl e \<Rightarrow> Inl e
      | Inr (EntryBlob b) \<Rightarrow> Inr (Blob b)
      | Inr (EntryTree t) \<Rightarrow> Inr (TreeDir_init name c (Some t)))"
| "obj_get (RefsDir n refs) name =
     (case il_getitem ref_name refs name of
        Inl e \<Rightarrow> Inl e
      | Inr r \<Rightarrow> Inr (TreeDir_init name (ref_commit r) None))"
| "obj_get (RemotesDir n rs) name =
     (case il_getitem remote_name rs name of
        Inl e \<Rightarrow> Inl e
      | Inr r \<Rightarrow> Inr (RefsDir name (remote_refs r)))"
| "obj_get (ObjectsDir n r) name = Inl AttributeError"
| "obj_get (RootDir r) name =
     (case map_of children name of
        None \<Rightarrow> Inl KeyError
      | Some fn \<Rightarrow> Inr (fn r))"

text \<open>
  \<^verbatim>\<open>scandir\<close> of each class: the yielded infos in order. \<^verbatim>\<open>Blob\<close> and \<^verbatim>\<open>ObjectsDir\<close>
  (whose own \<^verbatim>\<open>scandir\<close> is commented out) inherit the base method, which raises
  \<^verbatim>\<open>NotImplementedError\<close> when it is called.
\<close>

fun obj_scandir :: "GitObject \<Rightarrow> error + Info list" where
  "obj_scandir (Blob blob) = Inl NotImplementedError"
| "obj_scandir (TreeDir n c tree) =
     Inr (map (\<lambda>t. GitInfo (tree_attrs t) None) (trees tree)
          @ map (\<lambda>b. GitInfo (blob_attrs b) None) (blobs tree))"
| "obj_scandir (RefsDir n refs) =
     Inr (map (\<lambda>r. GitInfo (tree_attrs (commit_tree (ref_commit r)))
                      (Some (snd (path_split (ref_name r)))))
            (il_items refs))"
| "obj_scandir (RemotesDir n rs) =
     Inr (map (\<lambda>r. obj_getinfo (RefsDir (remote_name r) (remote_refs r)) None) (il_items rs))"
| "obj_scandir (ObjectsDir n r) = Inl NotImplementedError"
| "obj_scandir (RootDir r) = Inr (map (\<lambda>(name, fn). obj_getinfo (fn r) None) children)"

text \<open>\<^verbatim>\<open>openbin\<close> of each class: only \<^verbatim>\<open>Blob\<close> overrides the raising base method.\<close>

fun obj_openbin :: "GitObject \<Rightarrow> error + GitFile" where
  "obj_openbin (Blob blob) = Inr (GitFile_init blob)"
| "obj_openbin (TreeDir n c tree) = Inl NotImplementedError"
| "obj_openbin (RefsDir n refs) = Inl NotImplementedError"
| "obj_openbin (RemotesDir n rs) = Inl NotImplementedError"
| "obj_openbin (ObjectsDir n r) = Inl NotImplementedError"
| "obj_openbin (RootDir r) = Inl NotImplementedError"

text \<open>
  Python's \<^verbatim>\<open>hasattr(obj, "scandir")\<close>: the base class defines the method, so every
  node has the attribute.
\<close>

fun hasattr_scandir :: "GitObject \<Rightarrow> bool" where
  "hasattr_scandir obj = True"

subsection \<open>The facade [\<^verbatim>\<open>gitfs.py\<close>, class \<^verbatim>\<open>GitFS\<close>]\<close>

record GitFS =
  repo_path :: string
  repo :: repo

text \<open>The loop of \<^verbatim>\<open>_get_obj_by_path\<close>: the first exception ends it.\<close>

fun walk :: "GitObject \<Rightarrow> string list \<Rightarrow> error + GitObject" where
  "walk obj [] = Inr obj"
| "walk obj (part # parts) =
     (case obj_get obj part of
        Inl e \<Rightarrow> Inl e
      | Inr obj' \<Rightarrow> walk obj' parts)"

text \<open>
  The \<^verbatim>\<open>except\<close> clause of \<^verbatim>\<open>_get_obj_by_path\<close>: three exception classes become
  \<^verbatim>\<open>ResourceNotFound\<close> of the stripped path, every other exception passes.
\<close>

fun resolution_handler :: "string \<Rightarrow> error \<Rightarrow> error" where
  "resolution_handler path IndexError = ResourceNotFound path"
| "resolution_handler path KeyError = ResourceNotFound path"
| "resolution_handler path NotImplementedError = ResourceNotFound path"
| "resolution_handler path e = e"

definition get_obj_by_path :: "GitFS \<Rightarrow> string \<Rightarrow> error + GitObject" where
  "get_obj_by_path self path0 =
     (let path = str_strip CHR ''/'' path0 in
      case (if path \<noteq> [] then walk (RootDir (repo self)) (str_split CHR ''/'' path)
            else Inr (RootDir (repo self))) of
        Inl e \<Rightarrow> Inl (resolution_handler path e)
      | Inr obj \<Rightarrow> Inr obj)"

definition exists :: "GitFS \<Rightarrow> string \<Rightarrow> error + bool" where
  "exists self path =
     (case get_obj_by_path self path of
        Inr obj \<Rightarrow> Inr True
      | Inl (ResourceNotFound p) \<Rightarrow> Inr False
      | Inl e \<Rightarrow> Inl e)"

definition getinfo :: "GitFS \<Rightarrow> string \<Rightarrow> string list option \<Rightarrow> error + Info" where
  "getinfo self path namespaces =
     (case get_obj_by_path self path of
        Inl e \<Rightarrow> Inl e
      | Inr obj \<Rightarrow> Inr (obj_getinfo obj namespaces))"

definition listdir :: "GitFS \<Rightarrow> string \<Rightarrow> error + string option list" where
  "listdir self path =
     (case get_obj_by_path self path of
        Inl e \<Rightarrow> Inl e
      | Inr obj \<Rightarrow>
          (case obj_scandir obj of
             Inl NotImplementedError \<Rightarrow> Inl (DirectoryExpected path)
           | Inl e \<Rightarrow> Inl e
           | Inr infos \<Rightarrow> Inr (map info_name infos)))"

text \<open>
  Python's \<^verbatim>\<open>itertools.islice(it, start, end)\<close>: the elements at the positions from
  \<open>start\<close> up to, not including, \<open>end\<close>.
\<close>

definition islice :: "'a list \<Rightarrow> nat \<Rightarrow> nat \<Rightarrow> 'a list" where
  "islice xs start end = drop start (take end xs)"

definition scandir ::
  "GitFS \<Rightarrow> string \<Rightarrow> string list option \<Rightarrow> (nat \<times> nat) option \<Rightarrow> error + Info list" where
  "scandir self path namespaces page =
     (case get_obj_by_path self path of
        Inl e \<Rightarrow> Inl e
      | Inr obj \<Rightarrow>
          if \<not> hasattr_scandir obj then Inl (DirectoryExpected path)
          else (case obj_scandir obj of
                  Inl e \<Rightarrow> Inl e
                | Inr result \<Rightarrow>
                    Inr (case page of
                           None \<Rightarrow> result
                         | Some (start, end) \<Rightarrow> islice result start end)))"

text \<open>
  \<^verbatim>\<open>openbin\<close> first calls \<^verbatim>\<open>validatepath\<close>, a method of the host framework's base class:
  it is a parameter here, returning the normalised path or \<open>None\<close> when the host raises.
  The mode, the buffering and the options are not looked at.
\<close>

definition openbin ::
  "(string \<Rightarrow> string option) \<Rightarrow> GitFS \<Rightarrow> string \<Rightarrow> string \<Rightarrow> int \<Rightarrow> error + GitFile" where
  "openbin validatepath self path0 mode buffering =
     (case validatepath path0 of
        None \<Rightarrow> Inl (InvalidPath path0)
      | Some path \<Rightarrow>
          (case get_obj_by_path self path of
             Inl e \<Rightarrow> Inl e
           | Inr obj \<Rightarrow>
               (case obj_openbin obj of
                  Inl NotImplementedError \<Rightarrow> Inl (FileExpected path)
                | Inl e \<Rightarrow> Inl e
                | Inr f \<Rightarrow> Inr f)))"

text \<open>
  The four mutating operations. Each takes the facade and returns it with the outcome, so
  that what an operation does to the facade is part of its result.
\<close>

definition makedir ::
  "GitFS \<Rightarrow> string \<Rightarrow> int option \<Rightarrow> bool \<Rightarrow> (error + unit) \<times> GitFS" where
  "makedir self path permissions recreate = (Inl (ResourceReadOnly path), self)"

definition remove :: "GitFS \<Rightarrow> string \<Rightarrow> (error + unit) \<times> GitFS" where
  "remove self path = (Inl (ResourceReadOnly path), self)"

definition removedir :: "GitFS \<Rightarrow> string \<Rightarrow> (error + unit) \<times> GitFS" where
  "removedir self path = (Inl (ResourceReadOnly path), self)"

definition setinfo :: "GitFS \<Rightarrow> string \<Rightarrow> 'i \<Rightarrow> (error + unit) \<times> GitFS" where
  "setinfo self path info = (Inl (ResourceReadOnly path), self)"

subsection \<open>A small repository\<close>

text \<open>
  HEAD holds a directory \<^verbatim>\<open>fs\<close> with a file \<^verbatim>\<open>a.py\<close>, and two files \<^verbatim>\<open>LICENSE\<close> and
  \<^verbatim>\<open>README\<close>, stored with a file before the directory; there is one branch, one tag
  and one remote with one ref.
\<close>

definition license_blob :: git_blob where
  "license_blob = \<lparr>blob_name = ''LICENSE'', blob_size = 3, blob_mode = 33188,
                   blob_data = [77, 73, 84]\<rparr>"

definition readme_blob :: git_blob where
  "readme_blob = \<lparr>blob_name = ''README'', blob_size = 2, blob_mode = 33188,
                  blob_data = [104, 105]\<rparr>"

definition a_py_blob :: git_blob where
  "a_py_blob = \<lparr>blob_name = ''a.py'', blob_size = 0, blob_mode = 33188, blob_data = []\<rparr>"

definition fs_tree :: git_tree where
  "fs_tree = GitTree ''fs'' 32 16384 [EntryBlob a_py_blob]"

definition root_tree :: git_tree where
  "root_tree = GitTree [] 99 16384
                 [EntryBlob license_blob, EntryTree fs_tree, EntryBlob readme_blob]"

definition example_repo :: repo where
  "example_repo =
     \<lparr>head_commit = Commit root_tree,
      tags = IterableList [] [\<lparr>ref_name = ''v1'', ref_commit = Commit root_tree\<rparr>],
      branches = IterableList [] [\<lparr>ref_name = ''master'', ref_commit = Commit root_tree\<rparr>],
      remotes = IterableList []
        [\<lparr>remote_name = ''origin'',
          remote_refs = IterableList ''origin/''
            [\<lparr>ref_name = ''origin/master'', ref_commit = Commit root_tree\<rparr>]\<rparr>]\<rparr>"

definition example_fs :: GitFS where
  "example_fs = \<lparr>repo_path = ''/srv/repo'', repo = example_repo\<rparr>"

subsection \<open>The statements' vocabulary\<close>

text \<open>
  The following definitions follow the words of the specification, not the source; the
  theorems compare the source's functions with them. The attributes of an entry of a
  tree, whichever its kind:
\<close>

fun entry_attrs :: "git_entry \<Rightarrow> attrs" where
  "entry_attrs (EntryBlob b) = blob_attrs b"
| "entry_attrs (EntryTree t) = tree_attrs t"

text \<open>
  "All subdirectories before all files, in the store's order within each group": the
  entries of type \<^verbatim>\<open>tree\<close> as they come, followed by those of type \<^verbatim>\<open>blob\<close> as
  they come.
\<close>

definition subdirs_then_files :: "git_entry list \<Rightarrow> git_entry list" where
  "subdirs_then_files es =
     filter (\<lambda>e. entry_type e = ''tree'') es @ filter (\<lambda>e. entry_type e = ''blob'') es"

text \<open>The five names of the root, in the declared order.\<close>

definition root_names :: "string list" where
  "root_names = [''head'', ''tags'', ''branches'', ''remotes'', ''objects'']"

section \<open>Properties\<close>

subsection \<open>The content stream\<close>

text \<open>
  C8. Every stream reports that it is readable and not writable, and \<^verbatim>\<open>write\<close> and
  \<^verbatim>\<open>writelines\<close> fail with \<^verbatim>\<open>UnsupportedOperation\<close> for every argument and every
  stream state, returning the stream with its buffer and position as they were.
\<close>

theorem gitfile_rejects_writes:
  "readable f = True \<and> writable f = False
   \<and> GitFile_write f d = (Inl (UnsupportedOperation ''write''), f)
   \<and> GitFile_writelines f ls = (Inl (UnsupportedOperation ''write''), f)
   \<and> pos (snd (GitFile_write f d)) = pos f
   \<and> buffer (snd (GitFile_write f d)) = buffer f
   \<and> pos (snd (GitFile_writelines f ls)) = pos f
   \<and> buffer (snd (GitFile_writelines f ls)) = buffer f"
  by (simp add: readable_def writable_def GitFile_write_def GitFile_writelines_def)

subsection \<open>The mutating operations\<close>

text \<open>
  C4. \<^verbatim>\<open>makedir\<close>, \<^verbatim>\<open>remove\<close>, \<^verbatim>\<open>removedir\<close> and \<^verbatim>\<open>setinfo\<close> fail with
  \<^verbatim>\<open>ResourceReadOnly\<close> of the given path for every path and every other argument, without
  looking whether the path exists, and hand the facade back as it was: whatever is
  observed through it afterwards is what was observed before.
\<close>

theorem mutators_read_only:
  "makedir self path permissions recreate = (Inl (ResourceReadOnly path), self)
   \<and> remove self path = (Inl (ResourceReadOnly path), self)
   \<and> removedir self path = (Inl (ResourceReadOnly path), self)
   \<and> setinfo self path info = (Inl (ResourceReadOnly path), self)
   \<and> exists (snd (makedir self path permissions recreate)) q = exists self q
   \<and> exists (snd (remove self path)) q = exists self q
   \<and> exists (snd (removedir self path)) q = exists self q
   \<and> exists (snd (setinfo self path info)) q = exists self q"
  by (simp add: makedir_def remove_def removedir_def setinfo_def)

subsection \<open>Resource information\<close>

text \<open>
  C9, as amended. For every object and optional override name, the name of the info is
  the object's own name when that is not empty and the override otherwise; \<open>is_dir\<close>
  holds exactly when the object's type is not \<^verbatim>\<open>blob\<close>; the type of the details is the
  integer of the host's \<^verbatim>\<open>ResourceType.directory\<close>, which is 1, for a directory and that
  of \<^verbatim>\<open>ResourceType.file\<close>, which is 2, for a file; and \<open>is_writeable\<close> is false for
  every namespace and key.
\<close>

theorem gitinfo_fields:
  "(a_name obj \<noteq> [] \<longrightarrow> info_name (GitInfo obj name) = Some (a_name obj))
   \<and> (a_name obj = [] \<longrightarrow> info_name (GitInfo obj name) = name)
   \<and> is_dir (GitInfo obj name) = (a_type obj \<noteq> ''blob'')
   \<and> info_type (GitInfo obj name)
       = ResourceType_int (if is_dir (GitInfo obj name) then ResourceType_directory
                           else ResourceType_file)
   \<and> info_type (GitInfo obj name) = (if is_dir (GitInfo obj name) then 1 else 2)
   \<and> is_writeable (GitInfo obj name) namespace key = False"
  by (simp add: GitInfo_def is_writeable_def)

theorem gitinfo_fields_witness:
  "a_name (tree_attrs root_tree) = []
   \<and> a_name (blob_attrs license_blob) \<noteq> []
   \<and> info_name (GitInfo (tree_attrs root_tree) (Some ''master'')) = Some ''master''
   \<and> info_name (GitInfo (blob_attrs license_blob) None) = Some ''LICENSE''
   \<and> is_dir (GitInfo (tree_attrs root_tree) (Some ''master''))
   \<and> \<not> is_dir (GitInfo (blob_attrs license_blob) None)
   \<and> info_type (GitInfo (tree_attrs root_tree) (Some ''master'')) = 1
   \<and> info_type (GitInfo (blob_attrs license_blob) None) = 2"
  using gitinfo_fields [of "tree_attrs root_tree" "Some ''master''"]
        gitinfo_fields [of "blob_attrs license_blob" None]
  by (simp add: tree_attrs_def blob_attrs_def root_tree_def license_blob_def)

text \<open>
  C9 as stated gives the type of the details as 2 for a directory and 1 for a file. The
  info of the root tree of the example, a directory, has the type 1 and not 2, and the
  info of its file \<^verbatim>\<open>LICENSE\<close> has the type 2 and not 1.
\<close>

theorem gitinfo_type_counterexample:
  "is_dir (GitInfo (tree_attrs root_tree) (Some ''master''))
   \<and> info_type (GitInfo (tree_attrs root_tree) (Some ''master'')) = 1
   \<and> info_type (GitInfo (tree_attrs root_tree) (Some ''master'')) \<noteq> 2
   \<and> \<not> is_dir (GitInfo (blob_attrs license_blob) None)
   \<and> info_type (GitInfo (blob_attrs license_blob) None) = 2
   \<and> info_type (GitInfo (blob_attrs license_blob) None) \<noteq> 1"
  by (simp add: GitInfo_def tree_attrs_def blob_attrs_def)

subsection \<open>Enumeration of a tree\<close>

lemma entries_trees_filter:
  "map EntryTree (entries_trees es) = filter (\<lambda>e. entry_type e = ''tree'') es"
  by (induction es rule: entries_trees.induct) simp_all

lemma entries_blobs_filter:
  "map EntryBlob (entries_blobs es) = filter (\<lambda>e. entry_type e = ''blob'') es"
  by (induction es rule: entries_blobs.induct) simp_all

lemma entries_length:
  "length (entries_trees es) + length (entries_blobs es) = length es"
  by (induction es rule: entries_trees.induct) simp_all

lemma map_entry_info_trees:
  "map (\<lambda>t. GitInfo (tree_attrs t) None) ts = map (\<lambda>e. GitInfo (entry_attrs e) None) (map EntryTree ts)"
  by simp

lemma map_entry_info_blobs:
  "map (\<lambda>b. GitInfo (blob_attrs b) None) bs = map (\<lambda>e. GitInfo (entry_attrs e) None) (map EntryBlob bs)"
  by simp

lemma is_dir_tree_infos:
  "map is_dir (map (\<lambda>t. GitInfo (tree_attrs t) None) ts) = replicate (length ts) True"
  by (induction ts) (simp_all add: GitInfo_def tree_attrs_def)

lemma is_dir_blob_infos:
  "map is_dir (map (\<lambda>b. GitInfo (blob_attrs b) None) bs) = replicate (length bs) False"
  by (induction bs) (simp_all add: GitInfo_def blob_attrs_def)

text \<open>
  C7. Enumerating a tree directory yields the infos of the entries of type \<^verbatim>\<open>tree\<close>, in
  the order the store has them, followed by the infos of the entries of type \<^verbatim>\<open>blob\<close>,
  in the order the store has them: nothing is sorted, every entry is there once, and the
  directory flags are a run of \<open>True\<close> followed by a run of \<open>False\<close>.
\<close>

theorem treedir_scandir_order:
  "obj_scandir (TreeDir n c t)
     = Inr (map (\<lambda>e. GitInfo (entry_attrs e) None) (subdirs_then_files (tree_entries t)))
   \<and> map is_dir (map (\<lambda>e. GitInfo (entry_attrs e) None) (subdirs_then_files (tree_entries t)))
     = replicate (length (trees t)) True @ replicate (length (blobs t)) False
   \<and> length (trees t) + length (blobs t) = length (tree_entries t)"
proof -
  have a: "map (\<lambda>t. GitInfo (tree_attrs t) None) (trees t)
             = map (\<lambda>e. GitInfo (entry_attrs e) None)
                 (filter (\<lambda>e. entry_type e = ''tree'') (tree_entries t))"
    unfolding trees_def map_entry_info_trees entries_trees_filter ..
  have b: "map (\<lambda>b. GitInfo (blob_attrs b) None) (blobs t)
             = map (\<lambda>e. GitInfo (entry_attrs e) None)
                 (filter (\<lambda>e. entry_type e = ''blob'') (tree_entries t))"
    unfolding blobs_def map_entry_info_blobs entries_blobs_filter ..
  have s: "obj_scandir (TreeDir n c t)
     = Inr (map (\<lambda>e. GitInfo (entry_attrs e) None) (subdirs_then_files (tree_entries t)))"
    by (simp only: obj_scandir.simps a b subdirs_then_files_def map_append)
  have d: "map is_dir (map (\<lambda>e. GitInfo (entry_attrs e) None) (subdirs_then_files (tree_entries t)))
     = replicate (length (trees t)) True @ replicate (length (blobs t)) False"
    by (simp only: subdirs_then_files_def map_append a [symmetric] b [symmetric]
          is_dir_tree_infos is_dir_blob_infos)
  have l: "length (trees t) + length (blobs t) = length (tree_entries t)"
    by (simp add: trees_def blobs_def entries_length)
  from s d l show ?thesis by blast
qed

subsection \<open>Path resolution\<close>

lemma str_split_not_Nil: "str_split c s \<noteq> []"
  by (induction s) (auto split: list.splits)

lemma obj_get_error_kinds:
  "obj_get obj name = Inl e \<Longrightarrow>
     e = KeyError \<or> e = IndexError \<or> e = NotImplementedError
     \<or> (e = AttributeError \<and> (\<exists>n r. obj = ObjectsDir n r))"
  by (cases obj)
     (auto simp: tree_getitem_def il_getitem_def
           split: option.splits sum.splits git_entry.splits)

lemma walk_error_kinds:
  "walk obj parts = Inl e \<Longrightarrow>
     e = KeyError \<or> e = IndexError \<or> e = NotImplementedError \<or> e = AttributeError"
proof (induction parts arbitrary: obj)
  case Nil
  then show ?case by simp
next
  case (Cons part parts)
  show ?case
  proof (cases "obj_get obj part")
    case (Inl e')
    with Cons.prems have "e = e'" by simp
    with Inl obj_get_error_kinds [of obj part e'] show ?thesis by blast
  next
    case (Inr obj')
    with Cons.prems have "walk obj' parts = Inl e" by simp
    then show ?thesis by (rule Cons.IH)
  qed
qed

lemma get_obj_by_path_failure:
  assumes "get_obj_by_path self p = Inl e"
  shows "e = ResourceNotFound (str_strip CHR ''/'' p) \<or> e = AttributeError"
proof -
  let ?path = "str_strip CHR ''/'' p"
  from assms obtain e' where w: "walk (RootDir (repo self)) (str_split CHR ''/'' ?path) = Inl e'"
    and e: "e = resolution_handler ?path e'"
    by (auto simp: get_obj_by_path_def Let_def split: if_splits sum.splits)
  from walk_error_kinds [OF w] e show ?thesis by auto
qed

subsection \<open>The root directory\<close>

lemma get_obj_by_path_root: "get_obj_by_path self ''/'' = Inr (RootDir (repo self))"
  by (simp add: get_obj_by_path_def str_strip_def)

lemma obj_get_root_unknown:
  "name \<notin> set root_names \<Longrightarrow> obj_get (RootDir r) name = Inl KeyError"
  by (simp add: children_def root_names_def)

lemma get_obj_by_path_unknown_top:
  assumes "str_split CHR ''/'' (str_strip CHR ''/'' p) = name # rest"
    and "str_strip CHR ''/'' p \<noteq> []" and "name \<notin> set root_names"
  shows "get_obj_by_path self p = Inl (ResourceNotFound (str_strip CHR ''/'' p))"
proof -
  from assms(3) have "map_of children name = None"
    by (simp add: children_def root_names_def)
  then have "walk (RootDir (repo self)) (name # rest) = Inl KeyError"
    by simp
  with assms(1,2) show ?thesis
    by (simp add: get_obj_by_path_def Let_def)
qed

lemma root_scandir_names:
  assumes "tree_name (commit_tree (head_commit r)) = []"
  shows "map info_name (map (\<lambda>(name, fn). obj_getinfo (fn r) None) children) = map Some root_names"
  using assms
  by (simp add: children_def root_names_def TreeDir_init_def GitInfo_def tree_attrs_def VDir_attrs_def)

text \<open>
  C5. The root is a directory. When the root tree of the HEAD commit has no native name
  (the store gives the root tree of a commit the empty path), the children of the root
  are the five names \<^verbatim>\<open>head\<close>, \<^verbatim>\<open>tags\<close>, \<^verbatim>\<open>branches\<close>, \<^verbatim>\<open>remotes\<close>, \<^verbatim>\<open>objects\<close> in this
  order, for \<^verbatim>\<open>listdir\<close> and for \<^verbatim>\<open>scandir\<close>. Any other name is unknown to the root
  node, and a path that starts with it is not found.
\<close>

theorem root_directory:
  assumes "tree_name (commit_tree (head_commit (repo self))) = []"
  shows "(\<exists>i. getinfo self ''/'' ns = Inr i \<and> is_dir i)
   \<and> listdir self ''/'' = Inr (map Some root_names)
   \<and> (\<exists>infos. scandir self ''/'' ns None = Inr infos \<and> map info_name infos = map Some root_names)
   \<and> (\<forall>name. name \<notin> set root_names \<longrightarrow> obj_get (RootDir (repo self)) name = Inl KeyError)
   \<and> (\<forall>p name rest. str_strip CHR ''/'' p \<noteq> []
          \<and> str_split CHR ''/'' (str_strip CHR ''/'' p) = name # rest
          \<and> name \<notin> set root_names
        \<longrightarrow> get_obj_by_path self p = Inl (ResourceNotFound (str_strip CHR ''/'' p)))"
proof -
  have g: "\<exists>i. getinfo self ''/'' ns = Inr i \<and> is_dir i"
    by (simp add: getinfo_def get_obj_by_path_root GitInfo_def VDir_attrs_def)
  have l: "listdir self ''/'' = Inr (map Some root_names)"
    using root_scandir_names [OF assms]
    by (simp add: listdir_def get_obj_by_path_root)
  have s: "\<exists>infos. scandir self ''/'' ns None = Inr infos \<and> map info_name infos = map Some root_names"
    using root_scandir_names [OF assms]
    by (simp add: scandir_def get_obj_by_path_root)
  from g l s obj_get_root_unknown get_obj_by_path_unknown_top show ?thesis by blast
qed

theorem root_directory_witness:
  "tree_name (commit_tree (head_commit (repo example_fs))) = []
   \<and> listdir example_fs ''/'' = Inr (map Some root_names)
   \<and> get_obj_by_path example_fs ''/etc/passwd'' = Inl (ResourceNotFound ''etc/passwd'')"
proof -
  have h: "tree_name (commit_tree (head_commit (repo example_fs))) = []"
    by (simp add: example_fs_def example_repo_def root_tree_def)
  have s: "str_strip CHR ''/'' ''/etc/passwd'' = ''etc/passwd''"
    by (simp add: str_strip_def)
  have p: "str_split CHR ''/'' ''etc/passwd'' = [''etc'', ''passwd'']"
    by simp
  have n: "''etc'' \<notin> set root_names"
    by (simp add: root_names_def)
  from root_directory [OF h, of None] s p n h show ?thesis by simp
qed

subsection \<open>Listing\<close>

lemma listdir_DirectoryExpected:
  assumes "listdir self p = Inl (DirectoryExpected q)"
  shows "\<exists>obj. get_obj_by_path self p = Inr obj
           \<and> obj_scandir obj = Inl NotImplementedError \<and> q = p"
proof (cases "get_obj_by_path self p")
  case (Inl e)
  with assms have "e = DirectoryExpected q" by (simp add: listdir_def)
  with get_obj_by_path_failure [OF Inl] show ?thesis by simp
next
  case (Inr obj)
  with assms show ?thesis
    by (cases obj) (auto simp: listdir_def)
qed

lemma scandir_of_blob:
  "get_obj_by_path self p = Inr (Blob b) \<Longrightarrow> scandir self p ns page = Inl NotImplementedError"
  by (simp add: scandir_def)

text \<open>
  C6, as amended. For every path that resolves to a directory node other than the
  objects directory, \<^verbatim>\<open>scandir\<close> without a page returns a sequence of infos and
  \<^verbatim>\<open>listdir\<close> returns the names of exactly these infos, in the same order. Both are
  functions of the facade and the path and return no new facade, so a second call returns
  what the first returned.
\<close>

theorem listdir_matches_scandir:
  assumes "get_obj_by_path self p = Inr obj"
    and "is_dir (obj_getinfo obj None)"
    and "\<forall>n r. obj \<noteq> ObjectsDir n r"
  shows "\<exists>infos. scandir self p ns None = Inr infos
           \<and> listdir self p = Inr (map info_name infos)"
  using assms
  by (cases obj) (simp_all add: scandir_def listdir_def GitInfo_def blob_attrs_def)

theorem listdir_matches_scandir_witness:
  "get_obj_by_path example_fs ''/head'' = Inr (TreeDir ''head'' (Commit root_tree) root_tree)
   \<and> is_dir (obj_getinfo (TreeDir ''head'' (Commit root_tree) root_tree) None)
   \<and> (\<exists>infos. scandir example_fs ''/head'' None None = Inr infos
         \<and> listdir example_fs ''/head'' = Inr (map info_name infos))"
proof -
  have r: "get_obj_by_path example_fs ''/head''
             = Inr (TreeDir ''head'' (Commit root_tree) root_tree)"
    by code_simp
  have d: "is_dir (obj_getinfo (TreeDir ''head'' (Commit root_tree) root_tree) None)"
    by (simp add: GitInfo_def tree_attrs_def)
  have o: "\<forall>n r. TreeDir ''head'' (Commit root_tree) root_tree \<noteq> ObjectsDir n r"
    by simp
  from listdir_matches_scandir [OF r d o, of None] r d show ?thesis by blast
qed

text \<open>
  The objects directory is a directory for \<^verbatim>\<open>getinfo\<close>, and has no enumeration:
  \<^verbatim>\<open>listdir\<close> fails on it with \<^verbatim>\<open>DirectoryExpected\<close> (and \<^verbatim>\<open>scandir\<close> fails too), so
  that C6 as stated, for every directory node, does not hold at \<^verbatim>\<open>/objects\<close>.
\<close>

theorem listdir_objects_counterexample:
  "get_obj_by_path example_fs ''/objects'' = Inr (ObjectsDir ''objects'' example_repo)
   \<and> is_dir (obj_getinfo (ObjectsDir ''objects'' example_repo) None)
   \<and> listdir example_fs ''/objects'' = Inl (DirectoryExpected ''/objects'')
   \<and> scandir example_fs ''/objects'' None None = Inl NotImplementedError"
proof -
  have r: "get_obj_by_path example_fs ''/objects'' = Inr (ObjectsDir ''objects'' example_repo)"
    by code_simp
  have d: "is_dir (obj_getinfo (ObjectsDir ''objects'' example_repo) None)"
    by (simp add: GitInfo_def VDir_attrs_def)
  have l: "listdir example_fs ''/objects'' = Inl (DirectoryExpected ''/objects'')"
    by (simp add: listdir_def r)
  have s: "scandir example_fs ''/objects'' None None = Inl NotImplementedError"
    by (simp add: scandir_def r)
  from r d l s show ?thesis by blast
qed

text \<open>
  C2. On the path of a blob, \<^verbatim>\<open>listdir\<close> fails with \<^verbatim>\<open>DirectoryExpected\<close>, whereas
  \<^verbatim>\<open>scandir\<close> lets the node's \<^verbatim>\<open>NotImplementedError\<close> through: its test
  \<^verbatim>\<open>hasattr(obj, "scandir")\<close> holds for every node, and the call that follows is not
  guarded.
\<close>

theorem scandir_blob_leaks_not_implemented:
  "get_obj_by_path example_fs ''/head/LICENSE'' = Inr (Blob license_blob)
   \<and> scandir example_fs ''/head/LICENSE'' None None = Inl NotImplementedError
   \<and> listdir example_fs ''/head/LICENSE'' = Inl (DirectoryExpected ''/head/LICENSE'')"
proof -
  have r: "get_obj_by_path example_fs ''/head/LICENSE'' = Inr (Blob license_blob)"
    by code_simp
  show ?thesis
    by (simp add: listdir_def scandir_def r)
qed

subsection \<open>Opening\<close>

lemma obj_openbin_error: "obj_openbin obj = Inl e \<Longrightarrow> e = NotImplementedError"
  by (cases obj) simp_all

lemma openbin_failure:
  assumes "openbin validatepath self path mode buffering = Inl e"
  shows "e = InvalidPath path \<or> e = AttributeError
         \<or> (\<exists>p. validatepath path = Some p
               \<and> (e = ResourceNotFound (str_strip CHR ''/'' p) \<or> e = FileExpected p))"
proof (cases "validatepath path")
  case None
  with assms show ?thesis by (simp add: openbin_def)
next
  case (Some p)
  show ?thesis
  proof (cases "get_obj_by_path self p")
    case (Inl e')
    with assms Some have "e = e'" by (simp add: openbin_def)
    with get_obj_by_path_failure [OF Inl] Some show ?thesis by auto
  next
    case (Inr obj)
    show ?thesis
    proof (cases "obj_openbin obj")
      case (Inl e')
      from obj_openbin_error [OF this] have "e' = NotImplementedError" .
      with assms Some Inr Inl show ?thesis by (simp add: openbin_def)
    next
      case (Inr f)
      with assms Some \<open>get_obj_by_path self p = Inr obj\<close> show ?thesis
        by (simp add: openbin_def)
    qed
  qed
qed

text \<open>
  C10. The result of \<^verbatim>\<open>openbin\<close> is the same for every mode (and buffering); it is never
  \<^verbatim>\<open>FileExists\<close>, a stream that it returns is not writable, and for a path that
  resolves to a blob it is the read-only stream over that blob, whatever the mode.
\<close>

theorem openbin_ignores_mode:
  "openbin validatepath self path mode buffering
     = openbin validatepath self path mode' buffering'
   \<and> (\<forall>q. openbin validatepath self path mode buffering \<noteq> Inl (FileExists q))
   \<and> (\<forall>f. openbin validatepath self path mode buffering = Inr f \<longrightarrow> \<not> writable f)
   \<and> (\<forall>p b. validatepath path = Some p \<and> get_obj_by_path self p = Inr (Blob b)
        \<longrightarrow> openbin validatepath self path mode buffering = Inr (GitFile_init b))"
proof -
  have a: "openbin validatepath self path mode buffering
             = openbin validatepath self path mode' buffering'"
    by (simp add: openbin_def)
  have b: "\<forall>q. openbin validatepath self path mode buffering \<noteq> Inl (FileExists q)"
    using openbin_failure [of validatepath self path mode buffering] by auto
  have c: "\<forall>f. openbin validatepath self path mode buffering = Inr f \<longrightarrow> \<not> writable f"
    by (simp add: writable_def)
  have d: "\<forall>p b. validatepath path = Some p \<and> get_obj_by_path self p = Inr (Blob b)
        \<longrightarrow> openbin validatepath self path mode buffering = Inr (GitFile_init b)"
    by (simp add: openbin_def)
  from a b c d show ?thesis by blast
qed

theorem openbin_ignores_mode_witness:
  "get_obj_by_path example_fs ''/head/LICENSE'' = Inr (Blob license_blob)
   \<and> openbin Some example_fs ''/head/LICENSE'' ''w'' (-1) = Inr (GitFile_init license_blob)
   \<and> openbin Some example_fs ''/head/LICENSE'' ''w'' (-1)
       = openbin Some example_fs ''/head/LICENSE'' ''x'' 0
   \<and> \<not> writable (GitFile_init license_blob)"
proof -
  have r: "get_obj_by_path example_fs ''/head/LICENSE'' = Inr (Blob license_blob)"
    by code_simp
  note t = openbin_ignores_mode
             [of Some example_fs "''/head/LICENSE''" "''w''" "-1" "''x''" 0]
  from t have e: "openbin Some example_fs ''/head/LICENSE'' ''w'' (-1)
                    = openbin Some example_fs ''/head/LICENSE'' ''x'' 0"
    by blast
  from t r have o: "openbin Some example_fs ''/head/LICENSE'' ''w'' (-1)
                      = Inr (GitFile_init license_blob)"
    by blast
  from t o have w: "\<not> writable (GitFile_init license_blob)"
    by blast
  from r e o w show ?thesis by blast
qed

subsection \<open>Below the objects directory\<close>

text \<open>
  C1. For a path below \<^verbatim>\<open>/objects\<close>, the \<^verbatim>\<open>AttributeError\<close> of \<^verbatim>\<open>ObjectsDir.get\<close> is
  not among the exceptions that path resolution turns into \<^verbatim>\<open>ResourceNotFound\<close>, and
  it reaches the caller of \<^verbatim>\<open>exists\<close>, \<^verbatim>\<open>getinfo\<close>, \<^verbatim>\<open>listdir\<close>, \<^verbatim>\<open>scandir\<close> and
  \<^verbatim>\<open>openbin\<close>.
\<close>

theorem objects_child_leaks_attribute_error:
  "exists example_fs ''/objects/x'' = Inl AttributeError
   \<and> getinfo example_fs ''/objects/x'' None = Inl AttributeError
   \<and> listdir example_fs ''/objects/x'' = Inl AttributeError
   \<and> scandir example_fs ''/objects/x'' None None = Inl AttributeError
   \<and> openbin Some example_fs ''/objects/x'' ''r'' (-1) = Inl AttributeError"
proof -
  have r: "get_obj_by_path example_fs ''/objects/x'' = Inl AttributeError"
    by code_simp
  show ?thesis
    by (simp add: exists_def getinfo_def listdir_def scandir_def openbin_def r)
qed

text \<open>
  C3. A missing child and a child of a blob in an intermediate segment are reported as
  \<^verbatim>\<open>ResourceNotFound\<close> below \<^verbatim>\<open>/head\<close>; a missing child in an intermediate segment
  below \<^verbatim>\<open>/objects\<close> is not: \<^verbatim>\<open>listdir\<close> and \<^verbatim>\<open>openbin\<close> fail there with the
  \<^verbatim>\<open>AttributeError\<close> of the lookup.
\<close>

theorem objects_intermediate_segment_not_normalised:
  "get_obj_by_path example_fs ''/objects/x/y'' = Inl AttributeError
   \<and> listdir example_fs ''/objects/x/y'' = Inl AttributeError
   \<and> openbin Some example_fs ''/objects/x/y'' ''r'' (-1) = Inl AttributeError
   \<and> listdir example_fs ''/head/x/y'' = Inl (ResourceNotFound ''head/x/y'')
   \<and> listdir example_fs ''/head/LICENSE/y'' = Inl (ResourceNotFound ''head/LICENSE/y'')"
proof -
  have r: "get_obj_by_path example_fs ''/objects/x/y'' = Inl AttributeError"
    by code_simp
  have m: "get_obj_by_path example_fs ''/head/x/y'' = Inl (ResourceNotFound ''head/x/y'')"
    by code_simp
  have b: "get_obj_by_path example_fs ''/head/LICENSE/y''
             = Inl (ResourceNotFound ''head/LICENSE/y'')"
    by code_simp
  show ?thesis
    by (simp add: listdir_def openbin_def r m b)
qed

end
